theory Spec2Isabelle
  imports Main "HOL-Library.Sublist" "HOL-Library.AList"
begin

section \<open>SAST-Blame: the analyzer of \<open>src/analyzer.py\<close>\<close>

text \<open>
  The module has one class, \<open>SastAnalyzer\<close>, whose methods run Semgrep on a path, look up
  the blame of a line at GitLab or GitHub, and combine both into a dictionary keyed by
  \<open>file:line\<close>. Everything the methods obtain from outside the module (the Semgrep
  process, \<open>json.loads\<close>, pydantic's coercion of field values, the two hosting clients)
  is a field of a record \<open>world\<close>, and every theorem holds for every world.
\<close>

subsection \<open>Exceptions\<close>

text \<open>
  The exceptions are the subclasses of Python's \<open>Exception\<close>, the ones an
  \<open>except Exception\<close> clause catches. \<open>LibraryError s\<close> is an exception raised inside a
  library call (the process could not be started, the text is not JSON, the network or
  the authentication failed, the file does not exist), with \<open>s\<close> its text.
  \<open>RuntimeError p e\<close> is the \<open>RuntimeError\<close> whose message is the prefix \<open>p\<close> followed by
  \<open>str(e)\<close>.
\<close>

datatype exn =
    KeyError string
  | TypeError
  | AttributeError
  | IndexError
  | ValidationError
  | LibraryError string
  | RuntimeError string exn

definition ebind :: "exn + 'a \<Rightarrow> ('a \<Rightarrow> exn + 'b) \<Rightarrow> exn + 'b" where
  "ebind m f = (case m of Inl e \<Rightarrow> Inl e | Inr x \<Rightarrow> f x)"

subsection \<open>The pydantic models\<close>

record SastResult =
  file' :: string
  line :: int
  message :: string
  severity :: string
  rule_id :: string

record BlameInfo =
  author :: string
  commit :: string
  date :: string

subsection \<open>Values decoded from JSON\<close>

text \<open>
  What \<open>json.loads\<close> returns: \<open>None\<close>, a bool, an int, a float (kept as its text, no
  operation of the module looks inside one), a str, a list or a dict. A dict is the
  list of its items in the order of the document, each key once.
\<close>

datatype json =
    JNull
  | JBool bool
  | JInt int
  | JFloat string
  | JStr string
  | JArr "json list"
  | JObj "(string \<times> json) list"

text \<open>\<open>v[k]\<close> with a string key: only a dict can be subscripted by a string.\<close>

fun py_getitem :: "json \<Rightarrow> string \<Rightarrow> exn + json" where
  "py_getitem (JObj kvs) k = (case map_of kvs k of None \<Rightarrow> Inl (KeyError k) | Some v \<Rightarrow> Inr v)"
| "py_getitem _ k = Inl TypeError"

text \<open>\<open>v.get(k, d)\<close>: only a dict has the method.\<close>

fun py_get :: "json \<Rightarrow> string \<Rightarrow> json \<Rightarrow> exn + json" where
  "py_get (JObj kvs) k d = Inr (case map_of kvs k of None \<Rightarrow> d | Some v \<Rightarrow> v)"
| "py_get _ k d = Inl AttributeError"

text \<open>
  \<open>for x in v\<close>: a list gives its elements, a dict its keys, a str its characters;
  nothing else can be iterated.
\<close>

fun py_iter :: "json \<Rightarrow> exn + json list" where
  "py_iter (JArr xs) = Inr xs"
| "py_iter (JObj kvs) = Inr (map (\<lambda>kv. JStr (fst kv)) kvs)"
| "py_iter (JStr s) = Inr (map (\<lambda>c. JStr [c]) s)"
| "py_iter _ = Inl TypeError"

subsection \<open>The outside world\<close>

record completed_process =
  returncode :: int
  stdout :: string
  stderr :: string

text \<open>The hosting clients, each holding the token it was built with.\<close>

datatype gitlab_client = Gitlab string
datatype github_client = Github string

text \<open>
  One range of a GitLab blame: \<open>entry["lines"]["start"]\<close>, \<open>entry["lines"]["end"]\<close>,
  \<open>entry["commit"]["author_name"]\<close>, \<open>entry["commit"]["id"]\<close> and
  \<open>entry["commit"]["committed_date"]\<close>.
\<close>

record gitlab_entry =
  gl_lines_start :: int
  gl_lines_end :: int
  gl_author_name :: string
  gl_id :: string
  gl_committed_date :: string

text \<open>
  One range of a GitHub blame: \<open>entry.lines\<close>, \<open>entry.commit.author.name\<close>,
  \<open>entry.commit.sha\<close> and \<open>entry.commit.committed_date.isoformat()\<close>.
\<close>

record github_entry =
  gh_lines :: "int list"
  gh_author_name :: string
  gh_sha :: string
  gh_committed_date_isoformat :: string

text \<open>
  A request sent to a hosting service, with the repository and the file asked for:
  \<open>GitlabBlame\<close> is the chain
  \<open>self.gitlab_client.projects.get(repo_url).repository_blob(file_path).blame()\<close> and
  \<open>GithubBlame\<close> the chain
  \<open>self.github_client.get_repo(repo_url).get_contents(file_path).blame()\<close>, each of
  which raises as soon as one of its calls does. The requests made so far are kept in a
  list, oldest first, and a service may answer the same request differently as the
  list grows.
\<close>

datatype call = GitlabBlame string string | GithubBlame string string

record world =
  subprocess_run :: "string list \<Rightarrow> exn + completed_process"
  json_loads :: "string \<Rightarrow> exn + json"
  pydantic_str :: "json \<Rightarrow> string option"
  pydantic_int :: "json \<Rightarrow> int option"
  gitlab_fetch :: "call list \<Rightarrow> gitlab_client \<Rightarrow> string \<Rightarrow> string \<Rightarrow> exn + gitlab_entry list"
  github_fetch :: "call list \<Rightarrow> github_client \<Rightarrow> string \<Rightarrow> string \<Rightarrow> exn + github_entry list"

subsection \<open>\<open>SastAnalyzer.__init__\<close>\<close>

record analyzer =
  gitlab_token :: "string option"
  github_token :: "string option"
  gitlab_client :: "gitlab_client option"
  github_client :: "github_client option"

text \<open>A client is built only for a token that is true in Python: not \<open>None\<close>, not empty.\<close>

definition init :: "string option \<Rightarrow> string option \<Rightarrow> analyzer" where
  "init gitlab_tok github_tok =
     \<lparr> gitlab_token = gitlab_tok,
       github_token = github_tok,
       gitlab_client =
         (case gitlab_tok of None \<Rightarrow> None
          | Some t \<Rightarrow> if t = [] then None else Some (Gitlab t)),
       github_client =
         (case github_tok of None \<Rightarrow> None
          | Some t \<Rightarrow> if t = [] then None else Some (Github t)) \<rparr>"

subsection \<open>\<open>SastAnalyzer.run_semgrep\<close>\<close>

text \<open>The call \<open>SastResult(file=..., line=..., ...)\<close>, which validates each field.\<close>

definition SastResult_new :: "world \<Rightarrow> json \<Rightarrow> json \<Rightarrow> json \<Rightarrow> json \<Rightarrow> json \<Rightarrow> exn + SastResult" where
  "SastResult_new w f l m s r =
     (case (pydantic_str w f, pydantic_int w l, pydantic_str w m, pydantic_str w s, pydantic_str w r) of
        (Some f', Some l', Some m', Some s', Some r') \<Rightarrow>
          Inr \<lparr> file' = f', line = l', message = m', severity = s', rule_id = r' \<rparr>
      | _ \<Rightarrow> Inl ValidationError)"

text \<open>The element expression of the list comprehension, its arguments read in order.\<close>

definition finding_to_result :: "world \<Rightarrow> json \<Rightarrow> exn + SastResult" where
  "finding_to_result w finding =
     ebind (py_getitem finding ''path'') (\<lambda>f.
     ebind (ebind (py_getitem finding ''start'') (\<lambda>s. py_getitem s ''line'')) (\<lambda>l.
     ebind (ebind (py_getitem finding ''extra'') (\<lambda>x. py_getitem x ''message'')) (\<lambda>m.
     ebind (ebind (py_getitem finding ''extra'') (\<lambda>x. py_getitem x ''severity'')) (\<lambda>s.
     ebind (py_getitem finding ''check_id'') (\<lambda>r.
     SastResult_new w f l m s r)))))"

fun comprehension :: "world \<Rightarrow> json list \<Rightarrow> exn + SastResult list" where
  "comprehension w [] = Inr []"
| "comprehension w (finding # findings) =
     ebind (finding_to_result w finding) (\<lambda>r.
     ebind (comprehension w findings) (\<lambda>rs. Inr (r # rs)))"

text \<open>The body of the \<open>try\<close>.\<close>

definition run_semgrep_body :: "world \<Rightarrow> string \<Rightarrow> exn + SastResult list" where
  "run_semgrep_body w path =
     ebind (subprocess_run w [''semgrep'', ''--json'', path]) (\<lambda>result.
     ebind (json_loads w (stdout result)) (\<lambda>findings.
     ebind (py_get findings ''results'' (JArr [])) (\<lambda>results.
     ebind (py_iter results) (comprehension w))))"

definition run_semgrep :: "world \<Rightarrow> string \<Rightarrow> exn + SastResult list" where
  "run_semgrep w path =
     (case run_semgrep_body w path of
        Inl e \<Rightarrow> Inl (RuntimeError ''Semgrep analysis failed: '' e)
      | Inr rs \<Rightarrow> Inr rs)"

subsection \<open>\<open>SastAnalyzer._get_gitlab_blame\<close>\<close>

text \<open>The \<open>BlameInfo(author=..., commit=..., date=...)\<close> built from a range.\<close>

definition gitlab_BlameInfo :: "gitlab_entry \<Rightarrow> BlameInfo" where
  "gitlab_BlameInfo entry =
     \<lparr> author = gl_author_name entry, commit = gl_id entry, date = gl_committed_date entry \<rparr>"

text \<open>The \<open>for\<close> loop: the first range that holds the line returns; none returns \<open>None\<close>.\<close>

fun gitlab_scan :: "gitlab_entry list \<Rightarrow> int \<Rightarrow> BlameInfo option" where
  "gitlab_scan [] ln = None"
| "gitlab_scan (entry # blame) ln =
     (if gl_lines_start entry \<le> ln \<and> ln \<le> gl_lines_end entry
      then Some (gitlab_BlameInfo entry)
      else gitlab_scan blame ln)"

text \<open>
  The body of the \<open>try\<close>, with the requests made. Without a client,
  \<open>self.gitlab_client.projects\<close> raises before anything is sent.
\<close>

definition gitlab_blame_body ::
  "world \<Rightarrow> analyzer \<Rightarrow> string \<Rightarrow> string \<Rightarrow> int \<Rightarrow> call list
     \<Rightarrow> (exn + BlameInfo option) \<times> call list" where
  "gitlab_blame_body w self repo_url file_path ln log =
     (case gitlab_client self of
        None \<Rightarrow> (Inl AttributeError, log)
      | Some client \<Rightarrow>
          (ebind (gitlab_fetch w log client repo_url file_path)
             (\<lambda>blame. Inr (gitlab_scan blame ln)),
           log @ [GitlabBlame repo_url file_path]))"

definition get_gitlab_blame ::
  "world \<Rightarrow> analyzer \<Rightarrow> string \<Rightarrow> string \<Rightarrow> int \<Rightarrow> call list \<Rightarrow> BlameInfo option \<times> call list" where
  "get_gitlab_blame w self repo_url file_path ln log =
     (case gitlab_blame_body w self repo_url file_path ln log of
        (Inl e, log') \<Rightarrow> (None, log')
      | (Inr r, log') \<Rightarrow> (r, log'))"

subsection \<open>\<open>SastAnalyzer._get_github_blame\<close>\<close>

text \<open>
  The \<open>for\<close> loop. \<open>entry.lines[0]\<close> is read first and raises on an empty list;
  \<open>entry.lines[-1]\<close> is the last element of a list that is not empty.
\<close>

definition github_BlameInfo :: "github_entry \<Rightarrow> BlameInfo" where
  "github_BlameInfo entry =
     \<lparr> author = gh_author_name entry, commit = gh_sha entry,
       date = gh_committed_date_isoformat entry \<rparr>"

fun github_scan :: "github_entry list \<Rightarrow> int \<Rightarrow> exn + BlameInfo option" where
  "github_scan [] ln = Inr None"
| "github_scan (entry # blame) ln =
     (case gh_lines entry of
        [] \<Rightarrow> Inl IndexError
      | first # rest \<Rightarrow>
          if first \<le> ln \<and> ln \<le> last (first # rest)
          then Inr (Some (github_BlameInfo entry))
          else github_scan blame ln)"

definition github_blame_body ::
  "world \<Rightarrow> analyzer \<Rightarrow> string \<Rightarrow> string \<Rightarrow> int \<Rightarrow> call list
     \<Rightarrow> (exn + BlameInfo option) \<times> call list" where
  "github_blame_body w self repo_url file_path ln log =
     (case github_client self of
        None \<Rightarrow> (Inl AttributeError, log)
      | Some client \<Rightarrow>
          (ebind (github_fetch w log client repo_url file_path)
             (\<lambda>blame. github_scan blame ln),
           log @ [GithubBlame repo_url file_path]))"

definition get_github_blame ::
  "world \<Rightarrow> analyzer \<Rightarrow> string \<Rightarrow> string \<Rightarrow> int \<Rightarrow> call list \<Rightarrow> BlameInfo option \<times> call list" where
  "get_github_blame w self repo_url file_path ln log =
     (case github_blame_body w self repo_url file_path ln log of
        (Inl e, log') \<Rightarrow> (None, log')
      | (Inr r, log') \<Rightarrow> (r, log'))"

subsection \<open>\<open>SastAnalyzer.get_blame_info\<close>\<close>

text \<open>
  \<open>"gitlab" in repo_url\<close> is the test for a contiguous sublist, and a client is true
  when it is not \<open>None\<close>.
\<close>

definition get_blame_info ::
  "world \<Rightarrow> analyzer \<Rightarrow> string \<Rightarrow> string \<Rightarrow> int \<Rightarrow> call list \<Rightarrow> BlameInfo option \<times> call list" where
  "get_blame_info w self repo_url file_path ln log =
     (if gitlab_client self \<noteq> None \<and> sublist ''gitlab'' repo_url
      then get_gitlab_blame w self repo_url file_path ln log
      else if github_client self \<noteq> None \<and> sublist ''github'' repo_url
      then get_github_blame w self repo_url file_path ln log
      else (None, log))"

subsection \<open>\<open>SastAnalyzer.analyze_repository\<close>\<close>

text \<open>Python's \<open>str\<close> of an int: decimal digits, with a minus sign below zero.\<close>

definition digit_char :: "nat \<Rightarrow> char" where
  "digit_char d = ''0123456789'' ! d"

fun str_nat :: "nat \<Rightarrow> string" where
  "str_nat n = (if n < 10 then [digit_char n] else str_nat (n div 10) @ [digit_char (n mod 10)])"

declare str_nat.simps [simp del]

definition str_int :: "int \<Rightarrow> string" where
  "str_int i = (if i < 0 then CHR ''-'' # str_nat (nat (- i)) else str_nat (nat i))"

text \<open>The key \<open>f"{result.file}:{result.line}"\<close>.\<close>

definition key_of :: "SastResult \<Rightarrow> string" where
  "key_of result = file' result @ '':'' @ str_int (line result)"

text \<open>The value \<open>{"sast": result, "blame": blame}\<close>.\<close>

record enriched =
  sast :: SastResult
  blame :: "BlameInfo option"

text \<open>
  The dictionary keeps its keys in the order of their first insertion; an assignment to
  a key it has replaces the value in place, as \<open>AList.update\<close> does.
\<close>

type_synonym enriched_results = "(string \<times> enriched) list"

fun enrich_loop ::
  "world \<Rightarrow> analyzer \<Rightarrow> string \<Rightarrow> SastResult list \<Rightarrow> enriched_results \<Rightarrow> call list
     \<Rightarrow> enriched_results \<times> call list" where
  "enrich_loop w self repo_url [] enriched_results log = (enriched_results, log)"
| "enrich_loop w self repo_url (result # sast_results) enriched_results log =
     (case get_blame_info w self repo_url (file' result) (line result) log of
        (b, log') \<Rightarrow>
          enrich_loop w self repo_url sast_results
            (AList.update (key_of result) \<lparr> sast = result, blame = b \<rparr> enriched_results)
            log')"

definition analyze_repository ::
  "world \<Rightarrow> analyzer \<Rightarrow> string \<Rightarrow> string \<Rightarrow> call list \<Rightarrow> (exn + enriched_results) \<times> call list" where
  "analyze_repository w self repo_url path log =
     (case run_semgrep w path of
        Inl e \<Rightarrow> (Inl e, log)
      | Inr sast_results \<Rightarrow>
          (case enrich_loop w self repo_url sast_results [] log of
             (enriched_results, log') \<Rightarrow> (Inr enriched_results, log')))"

subsection \<open>Case-insensitive matching, in the words of the specification\<close>

text \<open>
  The specification's selector matches a hosting marker without regard to case. The
  lower-casing of an ASCII string, and the match it describes, are defined here to be
  compared with the test of \<open>get_blame_info\<close>.
\<close>

definition ascii_lower :: "char \<Rightarrow> char" where
  "ascii_lower c =
     (case map_of (zip ''ABCDEFGHIJKLMNOPQRSTUVWXYZ'' ''abcdefghijklmnopqrstuvwxyz'') c of
        None \<Rightarrow> c
      | Some d \<Rightarrow> d)"

definition spec_marker_match :: "string \<Rightarrow> string \<Rightarrow> bool" where
  "spec_marker_match marker locator = sublist marker (map ascii_lower locator)"

subsection \<open>An example world\<close>

text \<open>A validation that accepts a str for a str field and an int for an int field.\<close>

definition strict_str :: "json \<Rightarrow> string option" where
  "strict_str v = (case v of JStr s \<Rightarrow> Some s | _ \<Rightarrow> None)"

definition strict_int :: "json \<Rightarrow> int option" where
  "strict_int v = (case v of JInt i \<Rightarrow> Some i | _ \<Rightarrow> None)"

text \<open>Texts that Semgrep may print, and the values they decode to.\<close>

definition doc_no_results :: string where
  \<open>doc_no_results = ''{"results": []}''\<close>

definition doc_empty_object :: string where
  \<open>doc_empty_object = ''{}''\<close>

definition doc_list :: string where
  \<open>doc_list = ''[]''\<close>

definition doc_null_results :: string where
  \<open>doc_null_results = ''{"results": null}''\<close>

definition doc_three :: string where
  \<open>doc_three = ''{"results": [{"path": "b.py", "start": {"line": 5}, "extra": {"message": "m1", "severity": "ERROR"}, "check_id": "r1"}, {"path": "b.py", "start": {"line": 5}, "extra": {"message": "m2", "severity": "INFO"}, "check_id": "r2"}, {"path": "src/a.py", "start": {"line": 10}, "extra": {"message": "m3", "severity": "WARNING"}, "check_id": "r3"}]}''\<close>

definition finding_json :: "string \<Rightarrow> int \<Rightarrow> string \<Rightarrow> string \<Rightarrow> string \<Rightarrow> json" where
  "finding_json p l m s r =
     JObj [(''path'', JStr p), (''start'', JObj [(''line'', JInt l)]),
           (''extra'', JObj [(''message'', JStr m), (''severity'', JStr s)]),
           (''check_id'', JStr r)]"

definition example_json_loads :: "string \<Rightarrow> exn + json" where
  "example_json_loads s =
     (if s = doc_no_results then Inr (JObj [(''results'', JArr [])])
      else if s = doc_empty_object then Inr (JObj [])
      else if s = doc_list then Inr (JArr [])
      else if s = doc_null_results then Inr (JObj [(''results'', JNull)])
      else if s = doc_three then
        Inr (JObj [(''results'',
               JArr [finding_json ''b.py'' 5 ''m1'' ''ERROR'' ''r1'',
                     finding_json ''b.py'' 5 ''m2'' ''INFO'' ''r2'',
                     finding_json ''src/a.py'' 10 ''m3'' ''WARNING'' ''r3''])])
      else Inl (LibraryError ''JSONDecodeError''))"

text \<open>
  The Semgrep process, by the path it is run on: a scan that exits with status 1, four
  scans that exit with status 0, a scan that prints no JSON, and a path for which the
  process cannot be started.
\<close>

definition example_subprocess_run :: "string list \<Rightarrow> exn + completed_process" where
  "example_subprocess_run cmd =
     (if cmd = [''semgrep'', ''--json'', ''.'']
      then Inr \<lparr> returncode = 1, stdout = doc_no_results, stderr = ''scan failed'' \<rparr>
      else if cmd = [''semgrep'', ''--json'', ''empty'']
      then Inr \<lparr> returncode = 0, stdout = doc_empty_object, stderr = [] \<rparr>
      else if cmd = [''semgrep'', ''--json'', ''list'']
      then Inr \<lparr> returncode = 0, stdout = doc_list, stderr = [] \<rparr>
      else if cmd = [''semgrep'', ''--json'', ''null'']
      then Inr \<lparr> returncode = 0, stdout = doc_null_results, stderr = [] \<rparr>
      else if cmd = [''semgrep'', ''--json'', ''three'']
      then Inr \<lparr> returncode = 0, stdout = doc_three, stderr = [] \<rparr>
      else if cmd = [''semgrep'', ''--json'', ''text'']
      then Inr \<lparr> returncode = 0, stdout = ''no findings'', stderr = [] \<rparr>
      else Inl (LibraryError ''FileNotFoundError''))"

text \<open>The three findings of the last text.\<close>

definition finding1 :: SastResult where
  "finding1 =
     \<lparr> file' = ''b.py'', line = 5, message = ''m1'', severity = ''ERROR'', rule_id = ''r1'' \<rparr>"

definition finding2 :: SastResult where
  "finding2 =
     \<lparr> file' = ''b.py'', line = 5, message = ''m2'', severity = ''INFO'', rule_id = ''r2'' \<rparr>"

definition finding3 :: SastResult where
  "finding3 =
     \<lparr> file' = ''src/a.py'', line = 10, message = ''m3'', severity = ''WARNING'',
       rule_id = ''r3'' \<rparr>"

text \<open>
  Blame ranges: one on the lines 25 to 40, two that overlap on the lines 3 to 20, and
  one without lines.
\<close>

definition cyd :: gitlab_entry where
  "cyd = \<lparr> gl_lines_start = 25, gl_lines_end = 40, gl_author_name = ''Cyd'',
           gl_id = ''9a8b7c'', gl_committed_date = ''2023-12-12T00:00:00Z'' \<rparr>"

definition ann :: gitlab_entry where
  "ann = \<lparr> gl_lines_start = 1, gl_lines_end = 20, gl_author_name = ''Ann'',
           gl_id = ''abc123'', gl_committed_date = ''2024-01-01T00:00:00Z'' \<rparr>"

definition bob :: gitlab_entry where
  "bob = \<lparr> gl_lines_start = 3, gl_lines_end = 30, gl_author_name = ''Bob'',
           gl_id = ''def456'', gl_committed_date = ''2024-02-02T00:00:00Z'' \<rparr>"

definition hub_cyd :: github_entry where
  "hub_cyd = \<lparr> gh_lines = [25, 40], gh_author_name = ''Cyd'',
               gh_sha = ''9a8b7c'', gh_committed_date_isoformat = ''2023-12-12T00:00:00'' \<rparr>"

definition hub_ann :: github_entry where
  "hub_ann = \<lparr> gh_lines = [1, 20], gh_author_name = ''Ann'',
               gh_sha = ''abc123'', gh_committed_date_isoformat = ''2024-01-01T00:00:00'' \<rparr>"

definition hub_bob :: github_entry where
  "hub_bob = \<lparr> gh_lines = [3, 30], gh_author_name = ''Bob'',
               gh_sha = ''def456'', gh_committed_date_isoformat = ''2024-02-02T00:00:00'' \<rparr>"

definition hub_no_lines :: github_entry where
  "hub_no_lines = \<lparr> gh_lines = [], gh_author_name = ''Eve'',
                    gh_sha = ''000000'', gh_committed_date_isoformat = ''2024-03-03T00:00:00'' \<rparr>"

text \<open>
  GitLab refuses every token but one and knows two files; the blame of \<open>b.py\<close> changes
  after the first request. GitHub knows two files and answers one of them with a range
  that has no lines.
\<close>

definition example_gitlab_fetch ::
  "call list \<Rightarrow> gitlab_client \<Rightarrow> string \<Rightarrow> string \<Rightarrow> exn + gitlab_entry list" where
  "example_gitlab_fetch log client repo_url file_path =
     (if client \<noteq> Gitlab ''glpat'' then Inl (LibraryError ''401 Unauthorized'')
      else if file_path = ''src/a.py'' then Inr [cyd, ann, bob]
      else if file_path = ''b.py'' then (if log = [] then Inr [ann] else Inr [bob])
      else Inl (LibraryError ''404 File Not Found''))"

definition example_github_fetch ::
  "call list \<Rightarrow> github_client \<Rightarrow> string \<Rightarrow> string \<Rightarrow> exn + github_entry list" where
  "example_github_fetch log client repo_url file_path =
     (if file_path = ''src/a.py'' then Inr [hub_cyd, hub_ann, hub_bob, hub_no_lines]
      else if file_path = ''b.py'' then Inr [hub_no_lines, hub_ann]
      else Inl (LibraryError ''404 Not Found''))"

definition example_world :: world where
  "example_world =
     \<lparr> subprocess_run = example_subprocess_run,
       json_loads = example_json_loads,
       pydantic_str = strict_str,
       pydantic_int = strict_int,
       gitlab_fetch = example_gitlab_fetch,
       github_fetch = example_github_fetch \<rparr>"

section \<open>Properties\<close>

subsection \<open>Unfolding the definitions\<close>

lemmas ex_defs = example_world_def example_subprocess_run_def example_json_loads_def
  example_gitlab_fetch_def example_github_fetch_def strict_str_def strict_int_def
  doc_no_results_def doc_empty_object_def doc_list_def doc_null_results_def doc_three_def
  finding_json_def ann_def bob_def cyd_def hub_ann_def hub_bob_def hub_cyd_def
  hub_no_lines_def finding1_def finding2_def finding3_def

lemmas run_defs = run_semgrep_def run_semgrep_body_def ebind_def finding_to_result_def
  SastResult_new_def

lemmas blame_defs = get_blame_info_def get_gitlab_blame_def gitlab_blame_body_def
  get_github_blame_def github_blame_body_def init_def gitlab_BlameInfo_def
  github_BlameInfo_def sublist_code prefix_code

lemmas key_defs = key_of_def str_int_def str_nat.simps digit_char_def

subsection \<open>The scans of the blame ranges\<close>

lemma gitlab_scan_first_match:
  "\<forall>x\<in>set pre. \<not> (gl_lines_start x \<le> ln \<and> ln \<le> gl_lines_end x) \<Longrightarrow>
   gl_lines_start e \<le> ln \<Longrightarrow> ln \<le> gl_lines_end e \<Longrightarrow>
   gitlab_scan (pre @ e # post) ln = Some (gitlab_BlameInfo e)"
  by (induction pre) auto

lemma github_scan_first_match:
  "\<forall>x\<in>set pre. gh_lines x \<noteq> [] \<and> \<not> (hd (gh_lines x) \<le> ln \<and> ln \<le> last (gh_lines x)) \<Longrightarrow>
   gh_lines g \<noteq> [] \<Longrightarrow> hd (gh_lines g) \<le> ln \<Longrightarrow> ln \<le> last (gh_lines g) \<Longrightarrow>
   github_scan (pre @ g # post) ln = Inr (Some (github_BlameInfo g))"
proof (induction pre)
  case Nil
  then show ?case by (cases "gh_lines g") auto
next
  case (Cons x pre)
  then show ?case by (cases "gh_lines x") auto
qed

lemma gitlab_scan_no_match:
  "\<forall>x\<in>set es. \<not> (gl_lines_start x \<le> ln \<and> ln \<le> gl_lines_end x) \<Longrightarrow> gitlab_scan es ln = None"
  by (induction es) auto

lemma github_scan_no_match:
  "\<forall>x\<in>set gs. gh_lines x = [] \<or> \<not> (hd (gh_lines x) \<le> ln \<and> ln \<le> last (gh_lines x)) \<Longrightarrow>
   github_scan gs ln = Inr None \<or> github_scan gs ln = Inl IndexError"
proof (induction gs)
  case Nil
  then show ?case by simp
next
  case (Cons x gs)
  then show ?case by (cases "gh_lines x") auto
qed

subsection \<open>The key of a finding determines its file and line\<close>

lemma digit_char_inj: "a < 10 \<Longrightarrow> b < 10 \<Longrightarrow> digit_char a = digit_char b \<Longrightarrow> a = b"
proof -
  assume a: "a < 10" and b: "b < 10" and eq: "digit_char a = digit_char b"
  have d: "distinct ''0123456789''" by simp
  have "a < length ''0123456789''" "b < length ''0123456789''" using a b by simp_all
  with d eq show ?thesis unfolding digit_char_def by (simp only: nth_eq_iff_index_eq)
qed

lemma digit_char_set: "d < 10 \<Longrightarrow> digit_char d \<in> set ''0123456789''"
  unfolding digit_char_def by (rule nth_mem) simp

lemma str_nat_digits: "set (str_nat n) \<subseteq> set ''0123456789''"
proof (induction n rule: str_nat.induct)
  case (1 n)
  show ?case
  proof (cases "n < 10")
    case True
    then show ?thesis using digit_char_set[of n] by (subst str_nat.simps) simp
  next
    case False
    have "n mod 10 < 10" by simp
    then have "digit_char (n mod 10) \<in> set ''0123456789''" by (rule digit_char_set)
    with False 1 show ?thesis by (subst str_nat.simps) simp
  qed
qed

lemma str_nat_nonempty: "str_nat n \<noteq> []"
  by (subst str_nat.simps) simp

lemma str_nat_inj: "str_nat n = str_nat m \<Longrightarrow> n = m"
proof (induction n arbitrary: m rule: str_nat.induct)
  case (1 n)
  show ?case
  proof (cases "n < 10")
    case n: True
    show ?thesis
    proof (cases "m < 10")
      case True
      with n 1(2) show ?thesis
        by (metis digit_char_inj list.inject str_nat.simps)
    next
      case False
      then have "str_nat m = str_nat (m div 10) @ [digit_char (m mod 10)]"
        by (subst str_nat.simps) simp
      moreover have "str_nat n = [digit_char n]" using n by (subst str_nat.simps) simp
      ultimately show ?thesis using 1(2) str_nat_nonempty[of "m div 10"] by simp
    qed
  next
    case n: False
    then have sn: "str_nat n = str_nat (n div 10) @ [digit_char (n mod 10)]"
      by (subst str_nat.simps) simp
    show ?thesis
    proof (cases "m < 10")
      case True
      then have "str_nat m = [digit_char m]" by (subst str_nat.simps) simp
      with sn 1(2) str_nat_nonempty[of "n div 10"] show ?thesis by simp
    next
      case False
      then have sm: "str_nat m = str_nat (m div 10) @ [digit_char (m mod 10)]"
        by (subst str_nat.simps) simp
      from sn sm 1(2) have a: "str_nat (n div 10) = str_nat (m div 10)"
        and b: "digit_char (n mod 10) = digit_char (m mod 10)" by simp_all
      from 1(1)[OF n a] have "n div 10 = m div 10" .
      moreover from b have "n mod 10 = m mod 10" by (intro digit_char_inj) simp_all
      ultimately show ?thesis by (metis div_mult_mod_eq)
    qed
  qed
qed

lemma str_nat_no_colon: "CHR '':'' \<notin> set (str_nat n)"
proof
  assume "CHR '':'' \<in> set (str_nat n)"
  with str_nat_digits[of n] have "CHR '':'' \<in> set ''0123456789''" by (rule subsetD)
  then show False by simp
qed

lemma str_nat_no_minus: "str_nat n \<noteq> CHR ''-'' # s"
proof
  assume "str_nat n = CHR ''-'' # s"
  then have "CHR ''-'' \<in> set (str_nat n)" by simp
  with str_nat_digits[of n] have "CHR ''-'' \<in> set ''0123456789''" by (rule subsetD)
  then show False by simp
qed

lemma str_int_no_colon: "CHR '':'' \<notin> set (str_int i)"
  by (simp add: str_int_def str_nat_no_colon)

lemma str_int_inj: "str_int i = str_int j \<Longrightarrow> i = j"
proof -
  assume eq: "str_int i = str_int j"
  consider "i < 0" "j < 0" | "i < 0" "\<not> j < 0" | "\<not> i < 0" "j < 0" | "\<not> i < 0" "\<not> j < 0"
    by blast
  then show ?thesis
  proof cases
    case 1
    with eq have "str_nat (nat (- i)) = str_nat (nat (- j))" by (simp add: str_int_def)
    then have "nat (- i) = nat (- j)" by (rule str_nat_inj)
    with 1 show ?thesis by simp
  next
    case 2
    with eq have "str_nat (nat j) = CHR ''-'' # str_nat (nat (- i))" by (simp add: str_int_def)
    then show ?thesis using str_nat_no_minus by blast
  next
    case 3
    with eq have "str_nat (nat i) = CHR ''-'' # str_nat (nat (- j))" by (simp add: str_int_def)
    then show ?thesis using str_nat_no_minus by blast
  next
    case 4
    with eq have "str_nat (nat i) = str_nat (nat j)" by (simp add: str_int_def)
    then have "nat i = nat j" by (rule str_nat_inj)
    with 4 show ?thesis by simp
  qed
qed

lemma split_at_last_colon:
  assumes eq: "a @ CHR '':'' # s = b @ CHR '':'' # t"
    and s: "CHR '':'' \<notin> set s" and t: "CHR '':'' \<notin> set t"
  shows "a = b \<and> s = t"
proof -
  let ?P = "\<lambda>c. c \<noteq> CHR '':''"
  have r: "rev s @ CHR '':'' # rev a = rev t @ CHR '':'' # rev b"
  proof -
    from eq have "rev (a @ CHR '':'' # s) = rev (b @ CHR '':'' # t)" by (rule arg_cong)
    then show ?thesis by simp
  qed
  have ts: "takeWhile ?P (rev s @ CHR '':'' # rev a) = rev s"
    using s by (subst takeWhile_append2) auto
  have tt: "takeWhile ?P (rev t @ CHR '':'' # rev b) = rev t"
    using t by (subst takeWhile_append2) auto
  have ds: "dropWhile ?P (rev s @ CHR '':'' # rev a) = CHR '':'' # rev a"
    using s by (subst dropWhile_append2) auto
  have dt: "dropWhile ?P (rev t @ CHR '':'' # rev b) = CHR '':'' # rev b"
    using t by (subst dropWhile_append2) auto
  from ts tt r have "rev s = rev t" by simp
  moreover from ds dt r have "rev a = rev b" by simp
  ultimately show ?thesis by simp
qed

lemma key_of_eq_iff:
  "key_of r = key_of r' \<longleftrightarrow> file' r = file' r' \<and> line r = line r'"
proof
  assume "key_of r = key_of r'"
  then have "file' r @ CHR '':'' # str_int (line r) = file' r' @ CHR '':'' # str_int (line r')"
    by (simp add: key_of_def)
  from split_at_last_colon[OF this str_int_no_colon str_int_no_colon]
  show "file' r = file' r' \<and> line r = line r'" by (auto dest: str_int_inj)
qed (simp add: key_of_def)

lemma card_keys:
  "card (key_of ` set rs) = card ((\<lambda>r. (file' r, line r)) ` set rs)"
proof -
  let ?g = "\<lambda>p. fst p @ '':'' @ str_int (snd p)"
  let ?h = "\<lambda>r::SastResult. (file' r, line r)"
  have inj: "inj_on ?g (?h ` set rs)"
  proof (rule inj_onI)
    fix p q assume "p \<in> ?h ` set rs" "q \<in> ?h ` set rs" and eq: "?g p = ?g q"
    then obtain r r' :: SastResult where p: "p = ?h r" and q: "q = ?h r'" by blast
    from eq p q have "key_of r = key_of r'" by (simp add: key_of_def)
    then have "file' r = file' r' \<and> line r = line r'" by (simp only: key_of_eq_iff)
    with p q show "p = q" by simp
  qed
  have "key_of ` set rs = ?g ` (?h ` set rs)"
    by (simp add: image_image key_of_def)
  then show ?thesis using card_image[OF inj] by simp
qed

subsection \<open>The loop of \<open>analyze_repository\<close>\<close>

lemma enrich_loop_append:
  "enrich_loop w self u (xs @ ys) m log =
     (case enrich_loop w self u xs m log of (m', log') \<Rightarrow> enrich_loop w self u ys m' log')"
  by (induction xs arbitrary: m log) (auto split: prod.splits)

lemma enrich_loop_keys:
  "fst ` set (fst (enrich_loop w self u rs m log)) = fst ` set m \<union> key_of ` set rs"
  by (induction rs arbitrary: m log) (auto simp: AList.dom_update split: prod.splits)

lemma enrich_loop_distinct:
  "distinct (map fst m) \<Longrightarrow> distinct (map fst (fst (enrich_loop w self u rs m log)))"
  by (induction rs arbitrary: m log) (auto simp: AList.distinct_update split: prod.splits)

lemma enrich_loop_other_key:
  "\<forall>y\<in>set ys. key_of y \<noteq> k \<Longrightarrow>
   map_of (fst (enrich_loop w self u ys m log)) k = map_of m k"
  by (induction ys arbitrary: m log) (auto simp: AList.update_conv' split: prod.splits)

lemma one_pair_per_key:
  "distinct (map fst m) \<Longrightarrow> k \<in> fst ` set m \<Longrightarrow> length (filter (\<lambda>kv. fst kv = k) m) = 1"
proof (induction m)
  case Nil
  then show ?case by simp
next
  case (Cons a m)
  show ?case
  proof (cases "fst a = k")
    case True
    with Cons.prems have "k \<notin> fst ` set m" by simp
    then have "filter (\<lambda>kv. fst kv = k) m = []" by (auto simp: filter_empty_conv)
    with True show ?thesis by simp
  next
    case False
    with Cons show ?thesis by auto
  qed
qed

lemma update_set_cases:
  "kv \<in> set (AList.update k v al) \<Longrightarrow> kv = (k, v) \<or> kv \<in> set al"
  by (induction al) (auto split: if_splits)

lemma get_blame_info_no_provider:
  assumes "self = init None None \<or>
           (gitlab_client self = None \<or> \<not> sublist ''gitlab'' repo_url) \<and>
           (github_client self = None \<or> \<not> sublist ''github'' repo_url)"
  shows "get_blame_info w self repo_url file_path ln log = (None, log)"
  using assms by (auto simp: get_blame_info_def init_def)

lemma enrich_loop_no_provider:
  assumes "self = init None None \<or>
           (gitlab_client self = None \<or> \<not> sublist ''gitlab'' repo_url) \<and>
           (github_client self = None \<or> \<not> sublist ''github'' repo_url)"
    and "\<forall>kv\<in>set m. blame (snd kv) = None"
  shows "snd (enrich_loop w self repo_url rs m log) = log \<and>
         (\<forall>kv\<in>set (fst (enrich_loop w self repo_url rs m log)). blame (snd kv) = None)"
  using assms(2)
proof (induction rs arbitrary: m)
  case Nil
  then show ?case by simp
next
  case (Cons r rs)
  let ?m = "AList.update (key_of r) \<lparr> sast = r, blame = None \<rparr> m"
  have "\<forall>kv\<in>set ?m. blame (snd kv) = None"
    using Cons.prems by (auto dest!: update_set_cases)
  from Cons.IH[OF this] show ?case
    by (simp add: get_blame_info_no_provider[OF assms(1)])
qed

subsection \<open>\<open>run_semgrep\<close> and the exit status\<close>

lemma finding_to_result_cong:
  "pydantic_str w' = pydantic_str w \<Longrightarrow> pydantic_int w' = pydantic_int w \<Longrightarrow>
   finding_to_result w' x = finding_to_result w x"
  by (simp add: finding_to_result_def SastResult_new_def)

lemma comprehension_cong:
  "pydantic_str w' = pydantic_str w \<Longrightarrow> pydantic_int w' = pydantic_int w \<Longrightarrow>
   comprehension w' xs = comprehension w xs"
proof (induction xs)
  case Nil
  show ?case by simp
next
  case (Cons x xs)
  from Cons.prems have "finding_to_result w' x = finding_to_result w x"
    by (rule finding_to_result_cong)
  moreover from Cons have "comprehension w' xs = comprehension w xs" by simp
  ultimately show ?case by simp
qed

lemma run_semgrep_returncode:
  "run_semgrep
     (w\<lparr> subprocess_run :=
           \<lambda>cmd. map_sum id (\<lambda>p. p\<lparr> returncode := rc \<rparr>) (subprocess_run w cmd) \<rparr>) path =
     run_semgrep w path"
proof -
  define w' where "w' = w\<lparr> subprocess_run :=
           \<lambda>cmd. map_sum id (\<lambda>p. p\<lparr> returncode := rc \<rparr>) (subprocess_run w cmd) \<rparr>"
  have s: "pydantic_str w' = pydantic_str w" and i: "pydantic_int w' = pydantic_int w"
    and l: "json_loads w' = json_loads w"
    and r: "subprocess_run w' cmd = map_sum id (\<lambda>p. p\<lparr> returncode := rc \<rparr>) (subprocess_run w cmd)"
    for cmd
    by (simp_all add: w'_def)
  have c: "comprehension w' = comprehension w"
    by (rule ext) (rule comprehension_cong[OF s i])
  have "run_semgrep w' path = run_semgrep w path"
    by (cases "subprocess_run w [''semgrep'', ''--json'', path]")
       (simp_all add: run_semgrep_def run_semgrep_body_def ebind_def c l r)
  then show ?thesis by (simp only: w'_def)
qed

subsection \<open>The example world, evaluated\<close>

lemma run_three: "run_semgrep example_world ''three'' = Inr ([finding1] @ finding2 # [finding3])"
  by (simp add: ex_defs run_defs)

lemma gitlab_only: "gitlab_client (init (Some ''glpat'') None) = Some (Gitlab ''glpat'')"
  "github_client (init (Some ''glpat'') None) = None"
  by (simp_all add: init_def)

lemma loop_one:
  "enrich_loop example_world (init (Some ''glpat'') None) ''https://gitlab.example.com/g/p''
     [finding1] [] [] =
   ([(''b.py:5'', \<lparr> sast = finding1,
        blame = Some \<lparr> author = ''Ann'', commit = ''abc123'', date = ''2024-01-01T00:00:00Z'' \<rparr> \<rparr>)],
    [GitlabBlame ''https://gitlab.example.com/g/p'' ''b.py''])"
  by (simp add: ex_defs blame_defs ebind_def key_defs)

lemma lookup_two:
  "get_blame_info example_world (init (Some ''glpat'') None) ''https://gitlab.example.com/g/p''
     (file' finding2) (line finding2) [GitlabBlame ''https://gitlab.example.com/g/p'' ''b.py''] =
   (Some \<lparr> author = ''Bob'', commit = ''def456'', date = ''2024-02-02T00:00:00Z'' \<rparr>,
    [GitlabBlame ''https://gitlab.example.com/g/p'' ''b.py'',
     GitlabBlame ''https://gitlab.example.com/g/p'' ''b.py''])"
  by (simp add: ex_defs blame_defs ebind_def)

section \<open>The claims\<close>

text \<open>
  C1. A blame lookup that fails gives \<open>None\<close>, and nothing is raised into
  \<open>analyze_repository\<close>. When the request to GitLab or to GitHub raises (the network,
  the authentication, a file that does not exist), the lookup returns \<open>None\<close>; when the
  ranges come back and none holds the line (at GitHub also when a range without lines
  raises \<open>IndexError\<close>), the lookup returns \<open>None\<close>; \<open>get_blame_info\<close> adds no
  failure of its own; and once \<open>run_semgrep\<close> has returned its findings,
  \<open>analyze_repository\<close> returns a dictionary, whatever the hosting services do.
\<close>

theorem blame_failure_is_unknown:
  "(gitlab_client self = Some c \<and> gitlab_fetch w log c repo_url f1 = Inl e1 \<longrightarrow>
      get_gitlab_blame w self repo_url f1 ln log = (None, log @ [GitlabBlame repo_url f1])) \<and>
   (gitlab_client self = Some c \<and> gitlab_fetch w log c repo_url f2 = Inr es \<and>
    (\<forall>x\<in>set es. \<not> (gl_lines_start x \<le> ln \<and> ln \<le> gl_lines_end x)) \<longrightarrow>
      get_gitlab_blame w self repo_url f2 ln log = (None, log @ [GitlabBlame repo_url f2])) \<and>
   (github_client self = Some c' \<and> github_fetch w log c' repo_url f3 = Inl e3 \<longrightarrow>
      get_github_blame w self repo_url f3 ln log = (None, log @ [GithubBlame repo_url f3])) \<and>
   (github_client self = Some c' \<and> github_fetch w log c' repo_url f4 = Inr gs \<and>
    (\<forall>x\<in>set gs. gh_lines x = [] \<or> \<not> (hd (gh_lines x) \<le> ln \<and> ln \<le> last (gh_lines x))) \<longrightarrow>
      get_github_blame w self repo_url f4 ln log = (None, log @ [GithubBlame repo_url f4])) \<and>
   (fst (get_gitlab_blame w self repo_url f5 ln log) = None \<and>
    fst (get_github_blame w self repo_url f5 ln log) = None \<longrightarrow>
      fst (get_blame_info w self repo_url f5 ln log) = None) \<and>
   (run_semgrep w path = Inr rs \<longrightarrow>
      (\<exists>m log'. analyze_repository w self repo_url path log = (Inr m, log')))"
proof (intro conjI impI)
  assume "gitlab_client self = Some c \<and> gitlab_fetch w log c repo_url f1 = Inl e1"
  then show "get_gitlab_blame w self repo_url f1 ln log = (None, log @ [GitlabBlame repo_url f1])"
    by (simp add: get_gitlab_blame_def gitlab_blame_body_def ebind_def)
next
  assume "gitlab_client self = Some c \<and> gitlab_fetch w log c repo_url f2 = Inr es \<and>
    (\<forall>x\<in>set es. \<not> (gl_lines_start x \<le> ln \<and> ln \<le> gl_lines_end x))"
  then show "get_gitlab_blame w self repo_url f2 ln log = (None, log @ [GitlabBlame repo_url f2])"
    by (simp add: get_gitlab_blame_def gitlab_blame_body_def ebind_def gitlab_scan_no_match)
next
  assume "github_client self = Some c' \<and> github_fetch w log c' repo_url f3 = Inl e3"
  then show "get_github_blame w self repo_url f3 ln log = (None, log @ [GithubBlame repo_url f3])"
    by (simp add: get_github_blame_def github_blame_body_def ebind_def)
next
  assume a: "github_client self = Some c' \<and> github_fetch w log c' repo_url f4 = Inr gs \<and>
    (\<forall>x\<in>set gs. gh_lines x = [] \<or> \<not> (hd (gh_lines x) \<le> ln \<and> ln \<le> last (gh_lines x)))"
  then have "github_scan gs ln = Inr None \<or> github_scan gs ln = Inl IndexError"
    by (intro github_scan_no_match) simp
  with a show "get_github_blame w self repo_url f4 ln log = (None, log @ [GithubBlame repo_url f4])"
    by (auto simp: get_github_blame_def github_blame_body_def ebind_def)
next
  assume "fst (get_gitlab_blame w self repo_url f5 ln log) = None \<and>
    fst (get_github_blame w self repo_url f5 ln log) = None"
  then show "fst (get_blame_info w self repo_url f5 ln log) = None"
    by (simp add: get_blame_info_def)
next
  assume "run_semgrep w path = Inr rs"
  then show "\<exists>m log'. analyze_repository w self repo_url path log = (Inr m, log')"
    by (simp add: analyze_repository_def split: prod.splits)
qed

text \<open>
  In the example world: a file that neither service knows, a line that no range of
  GitLab holds, and at GitHub a range without lines.
\<close>

theorem blame_failure_is_unknown_witness:
  "gitlab_client (init (Some ''glpat'') (Some ''ghp'')) = Some (Gitlab ''glpat'') \<and>
   github_client (init (Some ''glpat'') (Some ''ghp'')) = Some (Github ''ghp'') \<and>
   gitlab_fetch example_world [] (Gitlab ''glpat'') ''https://gitlab.example.com/g/p'' ''gone.py'' =
     Inl (LibraryError ''404 File Not Found'') \<and>
   get_gitlab_blame example_world (init (Some ''glpat'') (Some ''ghp''))
     ''https://gitlab.example.com/g/p'' ''gone.py'' 50 [] =
     (None, [GitlabBlame ''https://gitlab.example.com/g/p'' ''gone.py'']) \<and>
   gitlab_fetch example_world [] (Gitlab ''glpat'') ''https://gitlab.example.com/g/p'' ''src/a.py'' =
     Inr [cyd, ann, bob] \<and>
   \<not> (gl_lines_start cyd \<le> 50 \<and> 50 \<le> gl_lines_end cyd) \<and>
   \<not> (gl_lines_start ann \<le> 50 \<and> 50 \<le> gl_lines_end ann) \<and>
   \<not> (gl_lines_start bob \<le> 50 \<and> 50 \<le> gl_lines_end bob) \<and>
   get_gitlab_blame example_world (init (Some ''glpat'') (Some ''ghp''))
     ''https://gitlab.example.com/g/p'' ''src/a.py'' 50 [] =
     (None, [GitlabBlame ''https://gitlab.example.com/g/p'' ''src/a.py'']) \<and>
   github_fetch example_world [] (Github ''ghp'') ''https://gitlab.example.com/g/p'' ''gone.py'' =
     Inl (LibraryError ''404 Not Found'') \<and>
   get_github_blame example_world (init (Some ''glpat'') (Some ''ghp''))
     ''https://gitlab.example.com/g/p'' ''gone.py'' 50 [] =
     (None, [GithubBlame ''https://gitlab.example.com/g/p'' ''gone.py'']) \<and>
   github_fetch example_world [] (Github ''ghp'') ''https://gitlab.example.com/g/p'' ''b.py'' =
     Inr [hub_no_lines, hub_ann] \<and>
   gh_lines hub_no_lines = [] \<and>
   \<not> (hd (gh_lines hub_ann) \<le> 50 \<and> 50 \<le> last (gh_lines hub_ann)) \<and>
   get_github_blame example_world (init (Some ''glpat'') (Some ''ghp''))
     ''https://gitlab.example.com/g/p'' ''b.py'' 50 [] =
     (None, [GithubBlame ''https://gitlab.example.com/g/p'' ''b.py'']) \<and>
   fst (get_blame_info example_world (init (Some ''glpat'') (Some ''ghp''))
     ''https://gitlab.example.com/g/p'' ''gone.py'' 50 []) = None \<and>
   run_semgrep example_world ''three'' = Inr ([finding1] @ finding2 # [finding3]) \<and>
   (\<exists>m log'. analyze_repository example_world (init (Some ''glpat'') (Some ''ghp''))
      ''https://gitlab.example.com/g/p'' ''three'' [] = (Inr m, log'))"
proof -
  have c: "gitlab_client (init (Some ''glpat'') (Some ''ghp'')) = Some (Gitlab ''glpat'')"
    "github_client (init (Some ''glpat'') (Some ''ghp'')) = Some (Github ''ghp'')"
    by (simp_all add: init_def)
  have f: "gitlab_fetch example_world [] (Gitlab ''glpat'') ''https://gitlab.example.com/g/p''
             ''gone.py'' = Inl (LibraryError ''404 File Not Found'')"
    "gitlab_fetch example_world [] (Gitlab ''glpat'') ''https://gitlab.example.com/g/p''
             ''src/a.py'' = Inr [cyd, ann, bob]"
    "github_fetch example_world [] (Github ''ghp'') ''https://gitlab.example.com/g/p''
             ''gone.py'' = Inl (LibraryError ''404 Not Found'')"
    "github_fetch example_world [] (Github ''ghp'') ''https://gitlab.example.com/g/p''
             ''b.py'' = Inr [hub_no_lines, hub_ann]"
    by (simp_all add: example_world_def example_gitlab_fetch_def example_github_fetch_def)
  have r: "\<not> (gl_lines_start cyd \<le> 50 \<and> 50 \<le> gl_lines_end cyd)"
    "\<not> (gl_lines_start ann \<le> 50 \<and> 50 \<le> gl_lines_end ann)"
    "\<not> (gl_lines_start bob \<le> 50 \<and> 50 \<le> gl_lines_end bob)"
    "gh_lines hub_no_lines = []"
    "\<not> (hd (gh_lines hub_ann) \<le> 50 \<and> 50 \<le> last (gh_lines hub_ann))"
    by (simp_all add: ann_def bob_def cyd_def hub_ann_def hub_no_lines_def)
  from blame_failure_is_unknown[where self = "init (Some ''glpat'') (Some ''ghp'')"
      and c = "Gitlab ''glpat''" and c' = "Github ''ghp''" and w = example_world and log = "[]"
      and repo_url = "''https://gitlab.example.com/g/p''" and ln = 50
      and ?f1.0 = "''gone.py''" and ?e1.0 = "LibraryError ''404 File Not Found''"
      and ?f2.0 = "''src/a.py''" and es = "[cyd, ann, bob]"
      and ?f3.0 = "''gone.py''" and ?e3.0 = "LibraryError ''404 Not Found''"
      and ?f4.0 = "''b.py''" and gs = "[hub_no_lines, hub_ann]"
      and ?f5.0 = "''gone.py''" and path = "''three''"
      and rs = "[finding1] @ finding2 # [finding3]"]
  show ?thesis using c f r run_three by simp
qed

text \<open>
  C2. When \<open>run_semgrep\<close> returns the findings \<open>rs\<close>, \<open>analyze_repository\<close> returns
  a dictionary whose keys are distinct and are exactly the keys \<open>file:line\<close> of the
  findings, with exactly one value under the key of each finding, in every world (so
  whether or not a blame was found), and whose size is the number of distinct pairs of
  file and line among the findings.
\<close>

theorem one_entry_per_finding_key:
  assumes "run_semgrep w path = Inr rs"
  shows "\<exists>m log'. analyze_repository w self repo_url path log = (Inr m, log') \<and>
           distinct (map fst m) \<and>
           fst ` set m = key_of ` set rs \<and>
           (\<forall>r\<in>set rs. \<exists>!v. (key_of r, v) \<in> set m) \<and>
           length m = card ((\<lambda>r. (file' r, line r)) ` set rs)"
proof -
  obtain m log' where el: "enrich_loop w self repo_url rs [] log = (m, log')"
    by (cases "enrich_loop w self repo_url rs [] log")
  have an: "analyze_repository w self repo_url path log = (Inr m, log')"
    using assms el by (simp add: analyze_repository_def)
  have d: "distinct (map fst m)"
    using enrich_loop_distinct[of "[]" w self repo_url rs log] el by simp
  have k: "fst ` set m = key_of ` set rs"
    using enrich_loop_keys[of w self repo_url rs "[]" log] el by simp
  have u: "\<forall>r\<in>set rs. \<exists>!v. (key_of r, v) \<in> set m"
  proof
    fix r assume "r \<in> set rs"
    with k have "key_of r \<in> fst ` set m" by blast
    then obtain v where v: "(key_of r, v) \<in> set m" by force
    show "\<exists>!v. (key_of r, v) \<in> set m"
    proof (rule ex1I[of _ v])
      show "(key_of r, v) \<in> set m" by (rule v)
    next
      fix v' assume "(key_of r, v') \<in> set m"
      with d v show "v' = v" by (meson eq_key_imp_eq_value)
    qed
  qed
  have "length m = card (fst ` set m)"
    using d distinct_card[of "map fst m"] by simp
  with k have l: "length m = card ((\<lambda>r. (file' r, line r)) ` set rs)"
    by (simp add: card_keys)
  from an d k u l show ?thesis by blast
qed

text \<open>
  In the example world: three findings, two of them at \<open>b.py:5\<close>, give a
  dictionary of two entries.
\<close>

theorem one_entry_per_finding_key_witness:
  "run_semgrep example_world ''three'' = Inr ([finding1] @ finding2 # [finding3]) \<and>
   card ((\<lambda>r. (file' r, line r)) ` set ([finding1] @ finding2 # [finding3])) = 2 \<and>
   key_of ` set ([finding1] @ finding2 # [finding3]) = {''b.py:5'', ''src/a.py:10''} \<and>
   (\<exists>m log'. analyze_repository example_world (init (Some ''glpat'') None)
                ''https://gitlab.example.com/g/p'' ''three'' [] = (Inr m, log') \<and>
      distinct (map fst m) \<and> fst ` set m = {''b.py:5'', ''src/a.py:10''} \<and> length m = 2)"
proof -
  have k: "key_of ` set ([finding1] @ finding2 # [finding3]) = {''b.py:5'', ''src/a.py:10''}"
    by (simp add: finding1_def finding2_def finding3_def key_defs)
  have c: "card ((\<lambda>r. (file' r, line r)) ` set ([finding1] @ finding2 # [finding3])) = 2"
    by (simp add: finding1_def finding2_def finding3_def)
  from one_entry_per_finding_key[OF run_three, of "init (Some ''glpat'') None"
      "''https://gitlab.example.com/g/p''" "[]"]
  show ?thesis using run_three k c by auto
qed

text \<open>
  C3, as amended. The match against the hosting markers is case-sensitive. A locator
  that holds neither \<open>gitlab\<close> nor \<open>github\<close> in exactly these lower-case letters selects
  no provider and nothing is requested, whatever the clients; a locator that holds
  \<open>gitlab\<close> selects GitLab when its client is configured; a locator that holds \<open>github\<close>
  and not \<open>gitlab\<close> selects GitHub when its client is configured.
\<close>

theorem provider_match_is_case_sensitive:
  "(\<not> sublist ''gitlab'' repo_url \<and> \<not> sublist ''github'' repo_url \<longrightarrow>
      get_blame_info w self repo_url file_path ln log = (None, log)) \<and>
   (gitlab_client self \<noteq> None \<and> sublist ''gitlab'' repo_url' \<longrightarrow>
      get_blame_info w self repo_url' file_path ln log =
        get_gitlab_blame w self repo_url' file_path ln log) \<and>
   (github_client self \<noteq> None \<and> sublist ''github'' repo_url'' \<and> \<not> sublist ''gitlab'' repo_url'' \<longrightarrow>
      get_blame_info w self repo_url'' file_path ln log =
        get_github_blame w self repo_url'' file_path ln log)"
  by (simp add: get_blame_info_def)

text \<open>
  In the example world: \<open>GitLab\<close> in capitals selects nothing,
  \<open>gitlab\<close> selects GitLab, \<open>github\<close> selects GitHub.
\<close>

theorem provider_match_is_case_sensitive_witness:
  "\<not> sublist ''gitlab'' ''https://GitLab.example.com/g/p'' \<and>
   \<not> sublist ''github'' ''https://GitLab.example.com/g/p'' \<and>
   get_blame_info example_world (init (Some ''glpat'') (Some ''ghp''))
     ''https://GitLab.example.com/g/p'' ''src/a.py'' 10 [] = (None, []) \<and>
   gitlab_client (init (Some ''glpat'') (Some ''ghp'')) \<noteq> None \<and>
   sublist ''gitlab'' ''https://gitlab.example.com/g/p'' \<and>
   get_blame_info example_world (init (Some ''glpat'') (Some ''ghp''))
     ''https://gitlab.example.com/g/p'' ''src/a.py'' 10 [] =
     get_gitlab_blame example_world (init (Some ''glpat'') (Some ''ghp''))
       ''https://gitlab.example.com/g/p'' ''src/a.py'' 10 [] \<and>
   github_client (init (Some ''glpat'') (Some ''ghp'')) \<noteq> None \<and>
   sublist ''github'' ''https://github.com/o/r'' \<and>
   \<not> sublist ''gitlab'' ''https://github.com/o/r'' \<and>
   get_blame_info example_world (init (Some ''glpat'') (Some ''ghp''))
     ''https://github.com/o/r'' ''src/a.py'' 10 [] =
     get_github_blame example_world (init (Some ''glpat'') (Some ''ghp''))
       ''https://github.com/o/r'' ''src/a.py'' 10 []"
proof -
  have s: "\<not> sublist ''gitlab'' ''https://GitLab.example.com/g/p''"
    "\<not> sublist ''github'' ''https://GitLab.example.com/g/p''"
    "sublist ''gitlab'' ''https://gitlab.example.com/g/p''"
    "sublist ''github'' ''https://github.com/o/r''"
    "\<not> sublist ''gitlab'' ''https://github.com/o/r''"
    by (simp_all add: sublist_code prefix_code)
  have c: "gitlab_client (init (Some ''glpat'') (Some ''ghp'')) \<noteq> None"
    "github_client (init (Some ''glpat'') (Some ''ghp'')) \<noteq> None"
    by (simp_all add: init_def)
  from provider_match_is_case_sensitive[where repo_url = "''https://GitLab.example.com/g/p''"
      and repo_url' = "''https://gitlab.example.com/g/p''"
      and repo_url'' = "''https://github.com/o/r''"
      and self = "init (Some ''glpat'') (Some ''ghp'')" and w = example_world
      and file_path = "''src/a.py''" and ln = 10 and log = "[]"]
  show ?thesis using s c by (simp only: simp_thms)
qed

text \<open>
  C3, as stated, fails: \<open>https://GitLab.example.com/g/p\<close> and
  \<open>https://gitlab.example.com/g/p\<close> differ only in the case of the marker, and the
  specification's case-insensitive match accepts the first, yet with a GitLab client
  the second is looked up at GitLab and the first selects no provider.
\<close>

theorem case_changes_selection:
  "map ascii_lower ''https://GitLab.example.com/g/p'' = ''https://gitlab.example.com/g/p'' \<and>
   spec_marker_match ''gitlab'' ''https://GitLab.example.com/g/p'' \<and>
   get_blame_info example_world (init (Some ''glpat'') None)
       ''https://gitlab.example.com/g/p'' ''src/a.py'' 10 [] =
     (Some \<lparr> author = ''Ann'', commit = ''abc123'', date = ''2024-01-01T00:00:00Z'' \<rparr>,
      [GitlabBlame ''https://gitlab.example.com/g/p'' ''src/a.py'']) \<and>
   get_blame_info example_world (init (Some ''glpat'') None)
       ''https://GitLab.example.com/g/p'' ''src/a.py'' 10 [] = (None, [])"
  by (simp add: ascii_lower_def spec_marker_match_def ex_defs blame_defs ebind_def)

text \<open>
  C4, as amended. \<open>run_semgrep\<close> does not look at the exit status: replacing the
  return code of the process by any other leaves its result unchanged. It fails with
  the \<open>Semgrep analysis failed\<close> error, and \<open>analyze_repository\<close> with it, without a
  dictionary and without a request to a hosting service, when the process cannot be run
  and when its output is not JSON.
\<close>

theorem exit_status_is_not_inspected:
  "run_semgrep
     (w\<lparr> subprocess_run :=
           \<lambda>cmd. map_sum id (\<lambda>p. p\<lparr> returncode := rc \<rparr>) (subprocess_run w cmd) \<rparr>) path =
     run_semgrep w path \<and>
   (subprocess_run w [''semgrep'', ''--json'', path1] = Inl e1 \<longrightarrow>
      run_semgrep w path1 = Inl (RuntimeError ''Semgrep analysis failed: '' e1) \<and>
      analyze_repository w self repo_url path1 log =
        (Inl (RuntimeError ''Semgrep analysis failed: '' e1), log)) \<and>
   (subprocess_run w [''semgrep'', ''--json'', path2] = Inr p \<and>
    json_loads w (stdout p) = Inl e2 \<longrightarrow>
      run_semgrep w path2 = Inl (RuntimeError ''Semgrep analysis failed: '' e2) \<and>
      analyze_repository w self repo_url path2 log =
        (Inl (RuntimeError ''Semgrep analysis failed: '' e2), log))"
  by (simp add: run_semgrep_returncode)
     (simp add: analyze_repository_def run_semgrep_def run_semgrep_body_def ebind_def)

text \<open>
  In the example world: the scan that exits with status 1 gives what it would give with
  status 0; a process that cannot be started and an output that is not JSON are fatal.
\<close>

theorem exit_status_is_not_inspected_witness:
  "run_semgrep
     (example_world\<lparr> subprocess_run :=
        \<lambda>cmd. map_sum id (\<lambda>p. p\<lparr> returncode := 0 \<rparr>) (subprocess_run example_world cmd) \<rparr>) ''.'' =
     run_semgrep example_world ''.'' \<and>
   subprocess_run example_world [''semgrep'', ''--json'', ''nowhere''] =
     Inl (LibraryError ''FileNotFoundError'') \<and>
   run_semgrep example_world ''nowhere'' =
     Inl (RuntimeError ''Semgrep analysis failed: '' (LibraryError ''FileNotFoundError'')) \<and>
   analyze_repository example_world (init (Some ''glpat'') None)
       ''https://gitlab.example.com/g/p'' ''nowhere'' [] =
     (Inl (RuntimeError ''Semgrep analysis failed: '' (LibraryError ''FileNotFoundError'')), []) \<and>
   subprocess_run example_world [''semgrep'', ''--json'', ''text''] =
     Inr \<lparr> returncode = 0, stdout = ''no findings'', stderr = [] \<rparr> \<and>
   json_loads example_world ''no findings'' = Inl (LibraryError ''JSONDecodeError'') \<and>
   run_semgrep example_world ''text'' =
     Inl (RuntimeError ''Semgrep analysis failed: '' (LibraryError ''JSONDecodeError'')) \<and>
   analyze_repository example_world (init (Some ''glpat'') None)
       ''https://gitlab.example.com/g/p'' ''text'' [] =
     (Inl (RuntimeError ''Semgrep analysis failed: '' (LibraryError ''JSONDecodeError'')), [])"
proof -
  have a: "subprocess_run example_world [''semgrep'', ''--json'', ''nowhere''] =
     Inl (LibraryError ''FileNotFoundError'')"
    and b: "subprocess_run example_world [''semgrep'', ''--json'', ''text''] =
     Inr \<lparr> returncode = 0, stdout = ''no findings'', stderr = [] \<rparr>"
    by (simp_all add: example_world_def example_subprocess_run_def)
  have c: "json_loads example_world ''no findings'' = Inl (LibraryError ''JSONDecodeError'')"
    by (simp add: ex_defs)
  from exit_status_is_not_inspected[where w = example_world and rc = 0 and path = "''.''"
      and ?path1.0 = "''nowhere''" and ?e1.0 = "LibraryError ''FileNotFoundError''"
      and ?path2.0 = "''text''" and p = "\<lparr> returncode = 0, stdout = ''no findings'', stderr = [] \<rparr>"
      and ?e2.0 = "LibraryError ''JSONDecodeError''"
      and self = "init (Some ''glpat'') None" and repo_url = "''https://gitlab.example.com/g/p''"
      and log = "[]"]
  show ?thesis using a b c by simp
qed

text \<open>
  C4, as stated, fails: a scan that exits with status 1 and prints
  \<open>{"results": []}\<close> makes \<open>run_semgrep\<close> return the empty list and
  \<open>analyze_repository\<close> the empty dictionary.
\<close>

theorem nonzero_exit_returns_findings:
  "subprocess_run example_world [''semgrep'', ''--json'', ''.''] =
     Inr \<lparr> returncode = 1, stdout = doc_no_results, stderr = ''scan failed'' \<rparr> \<and>
   json_loads example_world doc_no_results = Inr (JObj [(''results'', JArr [])]) \<and>
   run_semgrep example_world ''.'' = Inr [] \<and>
   analyze_repository example_world (init None None) ''https://gitlab.example.com/g/p'' ''.'' [] =
     (Inr [], [])"
  by (simp add: analyze_repository_def ex_defs run_defs)

text \<open>
  C5, as amended. \<open>run_semgrep\<close> fails with the \<open>Semgrep analysis failed\<close> error,
  and \<open>analyze_repository\<close> with it, when the output is not JSON, when the document is
  not an object, and when its \<open>results\<close> is null, a boolean or a number. An object
  without the key \<open>results\<close> is read as an empty list of results: \<open>run_semgrep\<close>
  returns no finding and \<open>analyze_repository\<close> the empty dictionary.
\<close>

theorem malformed_output:
  "(subprocess_run w [''semgrep'', ''--json'', path0] = Inr p0 \<and>
    json_loads w (stdout p0) = Inl e \<longrightarrow>
      run_semgrep w path0 = Inl (RuntimeError ''Semgrep analysis failed: '' e) \<and>
      analyze_repository w self repo_url path0 log =
        (Inl (RuntimeError ''Semgrep analysis failed: '' e), log)) \<and>
   (subprocess_run w [''semgrep'', ''--json'', path1] = Inr p1 \<and>
    json_loads w (stdout p1) = Inr j \<and> (\<forall>kvs. j \<noteq> JObj kvs) \<longrightarrow>
      run_semgrep w path1 = Inl (RuntimeError ''Semgrep analysis failed: '' AttributeError) \<and>
      analyze_repository w self repo_url path1 log =
        (Inl (RuntimeError ''Semgrep analysis failed: '' AttributeError), log)) \<and>
   (subprocess_run w [''semgrep'', ''--json'', path2] = Inr p2 \<and>
    json_loads w (stdout p2) = Inr (JObj kvs2) \<and> map_of kvs2 ''results'' = Some r \<and>
    r \<in> {JNull} \<union> range JBool \<union> range JInt \<union> range JFloat \<longrightarrow>
      run_semgrep w path2 = Inl (RuntimeError ''Semgrep analysis failed: '' TypeError) \<and>
      analyze_repository w self repo_url path2 log =
        (Inl (RuntimeError ''Semgrep analysis failed: '' TypeError), log)) \<and>
   (subprocess_run w [''semgrep'', ''--json'', path3] = Inr p3 \<and>
    json_loads w (stdout p3) = Inr (JObj kvs3) \<and> map_of kvs3 ''results'' = None \<longrightarrow>
      run_semgrep w path3 = Inr [] \<and>
      analyze_repository w self repo_url path3 log = (Inr [], log))"
proof (intro conjI impI)
  assume "subprocess_run w [''semgrep'', ''--json'', path0] = Inr p0 \<and>
    json_loads w (stdout p0) = Inl e"
  then show "run_semgrep w path0 = Inl (RuntimeError ''Semgrep analysis failed: '' e)"
    and "analyze_repository w self repo_url path0 log =
        (Inl (RuntimeError ''Semgrep analysis failed: '' e), log)"
    by (simp_all add: analyze_repository_def run_semgrep_def run_semgrep_body_def ebind_def)
next
  assume a: "subprocess_run w [''semgrep'', ''--json'', path1] = Inr p1 \<and>
    json_loads w (stdout p1) = Inr j \<and> (\<forall>kvs. j \<noteq> JObj kvs)"
  then have "py_get j ''results'' (JArr []) = Inl AttributeError" by (cases j) simp_all
  with a show "run_semgrep w path1 = Inl (RuntimeError ''Semgrep analysis failed: '' AttributeError)"
    and "analyze_repository w self repo_url path1 log =
        (Inl (RuntimeError ''Semgrep analysis failed: '' AttributeError), log)"
    by (simp_all add: analyze_repository_def run_semgrep_def run_semgrep_body_def ebind_def)
next
  assume a: "subprocess_run w [''semgrep'', ''--json'', path2] = Inr p2 \<and>
    json_loads w (stdout p2) = Inr (JObj kvs2) \<and> map_of kvs2 ''results'' = Some r \<and>
    r \<in> {JNull} \<union> range JBool \<union> range JInt \<union> range JFloat"
  then have "py_iter r = Inl TypeError" by auto
  with a show "run_semgrep w path2 = Inl (RuntimeError ''Semgrep analysis failed: '' TypeError)"
    and "analyze_repository w self repo_url path2 log =
        (Inl (RuntimeError ''Semgrep analysis failed: '' TypeError), log)"
    by (simp_all add: analyze_repository_def run_semgrep_def run_semgrep_body_def ebind_def)
next
  assume "subprocess_run w [''semgrep'', ''--json'', path3] = Inr p3 \<and>
    json_loads w (stdout p3) = Inr (JObj kvs3) \<and> map_of kvs3 ''results'' = None"
  then show "run_semgrep w path3 = Inr []"
    and "analyze_repository w self repo_url path3 log = (Inr [], log)"
    by (simp_all add: analyze_repository_def run_semgrep_def run_semgrep_body_def ebind_def)
qed

text \<open>
  In the example world: a text that is not JSON, the document \<open>[]\<close>, a
  \<open>results\<close> that is null, and the object \<open>{}\<close>.
\<close>

theorem malformed_output_witness:
  "subprocess_run example_world [''semgrep'', ''--json'', ''text''] =
     Inr \<lparr> returncode = 0, stdout = ''no findings'', stderr = [] \<rparr> \<and>
   json_loads example_world ''no findings'' = Inl (LibraryError ''JSONDecodeError'') \<and>
   run_semgrep example_world ''text'' =
     Inl (RuntimeError ''Semgrep analysis failed: '' (LibraryError ''JSONDecodeError'')) \<and>
   subprocess_run example_world [''semgrep'', ''--json'', ''list''] =
     Inr \<lparr> returncode = 0, stdout = doc_list, stderr = [] \<rparr> \<and>
   json_loads example_world doc_list = Inr (JArr []) \<and>
   run_semgrep example_world ''list'' =
     Inl (RuntimeError ''Semgrep analysis failed: '' AttributeError) \<and>
   analyze_repository example_world (init (Some ''glpat'') None)
       ''https://gitlab.example.com/g/p'' ''list'' [] =
     (Inl (RuntimeError ''Semgrep analysis failed: '' AttributeError), []) \<and>
   subprocess_run example_world [''semgrep'', ''--json'', ''null''] =
     Inr \<lparr> returncode = 0, stdout = doc_null_results, stderr = [] \<rparr> \<and>
   json_loads example_world doc_null_results = Inr (JObj [(''results'', JNull)]) \<and>
   run_semgrep example_world ''null'' =
     Inl (RuntimeError ''Semgrep analysis failed: '' TypeError) \<and>
   analyze_repository example_world (init (Some ''glpat'') None)
       ''https://gitlab.example.com/g/p'' ''null'' [] =
     (Inl (RuntimeError ''Semgrep analysis failed: '' TypeError), []) \<and>
   subprocess_run example_world [''semgrep'', ''--json'', ''empty''] =
     Inr \<lparr> returncode = 0, stdout = doc_empty_object, stderr = [] \<rparr> \<and>
   json_loads example_world doc_empty_object = Inr (JObj []) \<and>
   run_semgrep example_world ''empty'' = Inr [] \<and>
   analyze_repository example_world (init (Some ''glpat'') None)
       ''https://gitlab.example.com/g/p'' ''empty'' [] = (Inr [], [])"
proof -
  have p: "subprocess_run example_world [''semgrep'', ''--json'', ''text''] =
     Inr \<lparr> returncode = 0, stdout = ''no findings'', stderr = [] \<rparr>"
    "subprocess_run example_world [''semgrep'', ''--json'', ''list''] =
     Inr \<lparr> returncode = 0, stdout = doc_list, stderr = [] \<rparr>"
    "subprocess_run example_world [''semgrep'', ''--json'', ''null''] =
     Inr \<lparr> returncode = 0, stdout = doc_null_results, stderr = [] \<rparr>"
    "subprocess_run example_world [''semgrep'', ''--json'', ''empty''] =
     Inr \<lparr> returncode = 0, stdout = doc_empty_object, stderr = [] \<rparr>"
    by (simp_all add: example_world_def example_subprocess_run_def)
  have j: "json_loads example_world ''no findings'' = Inl (LibraryError ''JSONDecodeError'')"
    "json_loads example_world doc_list = Inr (JArr [])"
    "json_loads example_world doc_null_results = Inr (JObj [(''results'', JNull)])"
    "json_loads example_world doc_empty_object = Inr (JObj [])"
    by (simp_all add: ex_defs)
  from malformed_output[where w = example_world and self = "init (Some ''glpat'') None"
      and repo_url = "''https://gitlab.example.com/g/p''" and log = "[]"
      and ?path0.0 = "''text''"
      and ?p0.0 = "\<lparr> returncode = 0, stdout = ''no findings'', stderr = [] \<rparr>"
      and e = "LibraryError ''JSONDecodeError''"
      and ?path1.0 = "''list''"
      and ?p1.0 = "\<lparr> returncode = 0, stdout = doc_list, stderr = [] \<rparr>" and j = "JArr []"
      and ?path2.0 = "''null''"
      and ?p2.0 = "\<lparr> returncode = 0, stdout = doc_null_results, stderr = [] \<rparr>"
      and ?kvs2.0 = "[(''results'', JNull)]" and r = JNull
      and ?path3.0 = "''empty''"
      and ?p3.0 = "\<lparr> returncode = 0, stdout = doc_empty_object, stderr = [] \<rparr>"
      and ?kvs3.0 = "[]"]
  show ?thesis using p j by simp
qed

text \<open>
  C5, as stated, fails: a scan that prints the object \<open>{}\<close>, which has no
  \<open>results\<close>, makes \<open>run_semgrep\<close> return the empty list and
  \<open>analyze_repository\<close> the empty dictionary.
\<close>

theorem missing_results_key_is_empty:
  "subprocess_run example_world [''semgrep'', ''--json'', ''empty''] =
     Inr \<lparr> returncode = 0, stdout = doc_empty_object, stderr = [] \<rparr> \<and>
   json_loads example_world doc_empty_object = Inr (JObj []) \<and>
   run_semgrep example_world ''empty'' = Inr [] \<and>
   analyze_repository example_world (init None None) ''https://gitlab.example.com/g/p'' ''empty'' [] =
     (Inr [], [])"
  by (simp add: analyze_repository_def ex_defs run_defs)

text \<open>
  C6. The test for a range is inclusive at both ends. At GitLab a range from
  \<open>start\<close> to \<open>end\<close>, \<open>start \<le> end\<close>, at the head of the sequence answers the lookup
  of the line \<open>start\<close> and of the line \<open>end\<close>, and a single range answers exactly the
  lines with \<open>start \<le> line \<le> end\<close>. At GitHub the same holds with \<open>lines[0]\<close> and
  \<open>lines[-1]\<close> of a range whose \<open>lines\<close> is not empty.
\<close>

theorem range_containment_inclusive:
  "(gl_lines_start e \<le> gl_lines_end e \<longrightarrow>
      gitlab_scan (e # es) (gl_lines_start e) = Some (gitlab_BlameInfo e) \<and>
      gitlab_scan (e # es) (gl_lines_end e) = Some (gitlab_BlameInfo e)) \<and>
   (gitlab_scan [e] ln = Some (gitlab_BlameInfo e) \<longleftrightarrow>
      gl_lines_start e \<le> ln \<and> ln \<le> gl_lines_end e) \<and>
   (gh_lines g \<noteq> [] \<and> hd (gh_lines g) \<le> last (gh_lines g) \<longrightarrow>
      github_scan (g # gs) (hd (gh_lines g)) = Inr (Some (github_BlameInfo g)) \<and>
      github_scan (g # gs) (last (gh_lines g)) = Inr (Some (github_BlameInfo g))) \<and>
   (gh_lines g \<noteq> [] \<longrightarrow>
      (github_scan [g] ln = Inr (Some (github_BlameInfo g)) \<longleftrightarrow>
         hd (gh_lines g) \<le> ln \<and> ln \<le> last (gh_lines g)))"
  by (cases "gh_lines g") auto

text \<open>
  In the example world: the range of the lines 1 to 20 answers the line 1 and the line 20.
\<close>

theorem range_containment_inclusive_witness:
  "gl_lines_start ann \<le> gl_lines_end ann \<and>
   gitlab_scan [ann, bob] 1 = Some (gitlab_BlameInfo ann) \<and>
   gitlab_scan [ann, bob] 20 = Some (gitlab_BlameInfo ann) \<and>
   gh_lines hub_ann \<noteq> [] \<and> hd (gh_lines hub_ann) \<le> last (gh_lines hub_ann) \<and>
   github_scan [hub_ann, hub_bob] 1 = Inr (Some (github_BlameInfo hub_ann)) \<and>
   github_scan [hub_ann, hub_bob] 20 = Inr (Some (github_BlameInfo hub_ann))"
  using range_containment_inclusive[where e = ann and es = "[bob]" and g = hub_ann and gs = "[hub_bob]"]
  by (simp add: ann_def hub_ann_def)

text \<open>
  C7. With no credentials at all, or with a locator that matches no configured
  provider, \<open>get_blame_info\<close> returns \<open>None\<close> and sends no request (the list of
  requests is unchanged), and \<open>analyze_repository\<close> returns a dictionary with the key of
  every finding in which every blame is \<open>None\<close>, again without a request.
\<close>

theorem no_provider_no_lookup:
  assumes "self = init None None \<or>
           (gitlab_client self = None \<or> \<not> sublist ''gitlab'' repo_url) \<and>
           (github_client self = None \<or> \<not> sublist ''github'' repo_url)"
  shows "get_blame_info w self repo_url file_path ln log = (None, log) \<and>
         (run_semgrep w path = Inr rs \<longrightarrow>
            (\<exists>m. analyze_repository w self repo_url path log = (Inr m, log) \<and>
                 fst ` set m = key_of ` set rs \<and>
                 (\<forall>kv\<in>set m. blame (snd kv) = None)))"
proof (intro conjI impI)
  show "get_blame_info w self repo_url file_path ln log = (None, log)"
    using assms by (rule get_blame_info_no_provider)
next
  assume rs: "run_semgrep w path = Inr rs"
  obtain m log' where el: "enrich_loop w self repo_url rs [] log = (m, log')"
    by (cases "enrich_loop w self repo_url rs [] log")
  have "snd (enrich_loop w self repo_url rs [] log) = log \<and>
        (\<forall>kv\<in>set (fst (enrich_loop w self repo_url rs [] log)). blame (snd kv) = None)"
    using assms by (rule enrich_loop_no_provider) simp
  with el have l: "log' = log" and b: "\<forall>kv\<in>set m. blame (snd kv) = None" by simp_all
  have k: "fst ` set m = key_of ` set rs"
    using enrich_loop_keys[of w self repo_url rs "[]" log] el by simp
  have "analyze_repository w self repo_url path log = (Inr m, log)"
    using rs el l by (simp add: analyze_repository_def)
  with k b show "\<exists>m. analyze_repository w self repo_url path log = (Inr m, log) \<and>
                 fst ` set m = key_of ` set rs \<and> (\<forall>kv\<in>set m. blame (snd kv) = None)"
    by blast
qed

text \<open>
  In the example world: an analyzer without credentials on a GitLab locator, and an
  analyzer with the GitLab credential alone on a GitHub locator.
\<close>

theorem no_provider_no_lookup_witness:
  "run_semgrep example_world ''three'' = Inr ([finding1] @ finding2 # [finding3]) \<and>
   get_blame_info example_world (init None None) ''https://gitlab.example.com/g/p''
     ''src/a.py'' 10 [] = (None, []) \<and>
   (\<exists>m. analyze_repository example_world (init None None) ''https://gitlab.example.com/g/p''
          ''three'' [] = (Inr m, []) \<and>
        fst ` set m = {''b.py:5'', ''src/a.py:10''} \<and> (\<forall>kv\<in>set m. blame (snd kv) = None)) \<and>
   init (Some ''glpat'') None \<noteq> init None None \<and>
   \<not> sublist ''gitlab'' ''https://github.com/o/r'' \<and>
   github_client (init (Some ''glpat'') None) = None \<and>
   get_blame_info example_world (init (Some ''glpat'') None) ''https://github.com/o/r''
     ''src/a.py'' 10 [] = (None, [])"
proof -
  have k: "key_of ` set ([finding1] @ finding2 # [finding3]) = {''b.py:5'', ''src/a.py:10''}"
    by (simp add: finding1_def finding2_def finding3_def key_defs)
  have n: "init (Some ''glpat'') None \<noteq> init None None" by (simp add: init_def)
  have s: "\<not> sublist ''gitlab'' ''https://github.com/o/r''"
    by (simp add: sublist_code prefix_code)
  have a: "init None None = init None None \<or>
           (gitlab_client (init None None) = None \<or>
              \<not> sublist ''gitlab'' ''https://gitlab.example.com/g/p'') \<and>
           (github_client (init None None) = None \<or>
              \<not> sublist ''github'' ''https://gitlab.example.com/g/p'')" by simp
  have b: "init (Some ''glpat'') None = init None None \<or>
           (gitlab_client (init (Some ''glpat'') None) = None \<or>
              \<not> sublist ''gitlab'' ''https://github.com/o/r'') \<and>
           (github_client (init (Some ''glpat'') None) = None \<or>
              \<not> sublist ''github'' ''https://github.com/o/r'')"
    using s gitlab_only(2) by simp
  from no_provider_no_lookup[OF a, of example_world "''src/a.py''" 10 "[]" "''three''"
      "[finding1] @ finding2 # [finding3]"]
    no_provider_no_lookup[OF b, of example_world "''src/a.py''" 10 "[]" "''three''"
      "[finding1] @ finding2 # [finding3]"]
  show ?thesis using run_three k n s gitlab_only(2) by simp
qed

text \<open>
  C8. When the findings are \<open>xs\<close>, then \<open>r\<close>, then \<open>ys\<close>, and no finding of \<open>ys\<close>
  has the key of \<open>r\<close>, the dictionary holds exactly one entry under the key of \<open>r\<close>,
  made of \<open>r\<close> itself and of the blame looked up for \<open>r\<close> after the findings \<open>xs\<close>
  were processed, whatever \<open>xs\<close> had put under that key.
\<close>

theorem later_finding_overwrites:
  assumes "run_semgrep w path = Inr (xs @ r # ys)"
    and "\<forall>y\<in>set ys. key_of y \<noteq> key_of r"
  shows "\<exists>m log'. analyze_repository w self repo_url path log = (Inr m, log') \<and>
           map_of m (key_of r) =
             Some \<lparr> sast = r,
                    blame = fst (get_blame_info w self repo_url (file' r) (line r)
                                   (snd (enrich_loop w self repo_url xs [] log))) \<rparr> \<and>
           length (filter (\<lambda>kv. fst kv = key_of r) m) = 1"
proof -
  obtain m1 log1 where e1: "enrich_loop w self repo_url xs [] log = (m1, log1)"
    by (cases "enrich_loop w self repo_url xs [] log")
  obtain b log2 where gb: "get_blame_info w self repo_url (file' r) (line r) log1 = (b, log2)"
    by (cases "get_blame_info w self repo_url (file' r) (line r) log1")
  let ?m2 = "AList.update (key_of r) \<lparr> sast = r, blame = b \<rparr> m1"
  obtain m log' where e3: "enrich_loop w self repo_url ys ?m2 log2 = (m, log')"
    by (cases "enrich_loop w self repo_url ys ?m2 log2")
  have el: "enrich_loop w self repo_url (xs @ r # ys) [] log = (m, log')"
    using e1 gb e3 by (simp add: enrich_loop_append)
  have an: "analyze_repository w self repo_url path log = (Inr m, log')"
    using assms(1) el by (simp add: analyze_repository_def)
  have "map_of m (key_of r) = map_of ?m2 (key_of r)"
    using enrich_loop_other_key[OF assms(2), of w self repo_url ?m2 log2] e3 by simp
  then have mo: "map_of m (key_of r) = Some \<lparr> sast = r, blame = b \<rparr>"
    by (simp add: AList.update_conv')
  have d: "distinct (map fst m)"
    using enrich_loop_distinct[of "[]" w self repo_url "xs @ r # ys" log] el by simp
  from mo have "(key_of r, \<lparr> sast = r, blame = b \<rparr>) \<in> set m" by (rule map_of_SomeD)
  then have "key_of r \<in> fst ` set m" by force
  with d have c: "length (filter (\<lambda>kv. fst kv = key_of r) m) = 1"
    by (rule one_pair_per_key)
  from an mo c e1 gb show ?thesis by simp
qed

text \<open>
  In the example world: the second finding at \<open>b.py:5\<close> replaces the first,
  and its blame is the one GitLab gives at the second request.
\<close>

theorem later_finding_overwrites_witness:
  "run_semgrep example_world ''three'' = Inr ([finding1] @ finding2 # [finding3]) \<and>
   key_of finding1 = key_of finding2 \<and> key_of finding3 \<noteq> key_of finding2 \<and>
   (\<exists>m log'. analyze_repository example_world (init (Some ''glpat'') None)
                ''https://gitlab.example.com/g/p'' ''three'' [] = (Inr m, log') \<and>
      map_of m ''b.py:5'' =
        Some \<lparr> sast = finding2,
               blame = Some \<lparr> author = ''Bob'', commit = ''def456'',
                               date = ''2024-02-02T00:00:00Z'' \<rparr> \<rparr> \<and>
      length (filter (\<lambda>kv. fst kv = ''b.py:5'') m) = 1)"
proof -
  have k: "key_of finding1 = key_of finding2" "key_of finding3 \<noteq> key_of finding2"
    "key_of finding2 = ''b.py:5''"
    by (simp_all add: finding1_def finding2_def finding3_def key_defs)
  then have h: "\<forall>y\<in>set [finding3]. key_of y \<noteq> key_of finding2" by simp
  have b: "fst (get_blame_info example_world (init (Some ''glpat'') None)
                 ''https://gitlab.example.com/g/p'' (file' finding2) (line finding2)
                 (snd (enrich_loop example_world (init (Some ''glpat'') None)
                         ''https://gitlab.example.com/g/p'' [finding1] [] []))) =
           Some \<lparr> author = ''Bob'', commit = ''def456'', date = ''2024-02-02T00:00:00Z'' \<rparr>"
    by (simp only: loop_one snd_conv lookup_two fst_conv)
  from later_finding_overwrites[OF run_three h, of "init (Some ''glpat'') None"
      "''https://gitlab.example.com/g/p''" "[]"]
  have "\<exists>m log'. analyze_repository example_world (init (Some ''glpat'') None)
                ''https://gitlab.example.com/g/p'' ''three'' [] = (Inr m, log') \<and>
      map_of m ''b.py:5'' =
        Some \<lparr> sast = finding2,
               blame = Some \<lparr> author = ''Bob'', commit = ''def456'',
                               date = ''2024-02-02T00:00:00Z'' \<rparr> \<rparr> \<and>
      length (filter (\<lambda>kv. fst kv = ''b.py:5'') m) = 1"
    by (simp only: b k)
  with run_three k show ?thesis by (simp only: simp_thms)
qed

text \<open>
  C9. When both clients are configured and the locator holds both \<open>gitlab\<close> and
  \<open>github\<close>, \<open>get_blame_info\<close> is the GitLab lookup, and the one request it sends is
  the request to GitLab.
\<close>

theorem gitlab_takes_priority:
  "gitlab_client self \<noteq> None \<Longrightarrow> github_client self \<noteq> None \<Longrightarrow>
   sublist ''gitlab'' repo_url \<Longrightarrow> sublist ''github'' repo_url \<Longrightarrow>
   get_blame_info w self repo_url file_path ln log =
     get_gitlab_blame w self repo_url file_path ln log \<and>
   snd (get_blame_info w self repo_url file_path ln log) = log @ [GitlabBlame repo_url file_path]"
  by (auto simp: get_blame_info_def get_gitlab_blame_def gitlab_blame_body_def split: sum.splits)

text \<open>
  In the example world: a locator that holds both markers is looked up at GitLab.
\<close>

theorem gitlab_takes_priority_witness:
  "gitlab_client (init (Some ''glpat'') (Some ''ghp'')) \<noteq> None \<and>
   github_client (init (Some ''glpat'') (Some ''ghp'')) \<noteq> None \<and>
   sublist ''gitlab'' ''https://gitlab.example.com/mirror/github/p'' \<and>
   sublist ''github'' ''https://gitlab.example.com/mirror/github/p'' \<and>
   get_blame_info example_world (init (Some ''glpat'') (Some ''ghp''))
       ''https://gitlab.example.com/mirror/github/p'' ''src/a.py'' 10 [] =
     (Some \<lparr> author = ''Ann'', commit = ''abc123'', date = ''2024-01-01T00:00:00Z'' \<rparr>,
      [GitlabBlame ''https://gitlab.example.com/mirror/github/p'' ''src/a.py''])"
proof -
  have a: "gitlab_client (init (Some ''glpat'') (Some ''ghp'')) \<noteq> None"
    and b: "github_client (init (Some ''glpat'') (Some ''ghp'')) \<noteq> None"
    by (simp_all add: init_def)
  have c: "sublist ''gitlab'' ''https://gitlab.example.com/mirror/github/p''"
    and d: "sublist ''github'' ''https://gitlab.example.com/mirror/github/p''"
    by (simp_all add: sublist_code prefix_code)
  have g: "get_gitlab_blame example_world (init (Some ''glpat'') (Some ''ghp''))
       ''https://gitlab.example.com/mirror/github/p'' ''src/a.py'' 10 [] =
     (Some \<lparr> author = ''Ann'', commit = ''abc123'', date = ''2024-01-01T00:00:00Z'' \<rparr>,
      [GitlabBlame ''https://gitlab.example.com/mirror/github/p'' ''src/a.py''])"
    by (simp add: ex_defs get_gitlab_blame_def gitlab_blame_body_def init_def
        gitlab_BlameInfo_def ebind_def)
  from gitlab_takes_priority[OF a b c d, of example_world "''src/a.py''" 10 "[]"]
  have "get_blame_info example_world (init (Some ''glpat'') (Some ''ghp''))
       ''https://gitlab.example.com/mirror/github/p'' ''src/a.py'' 10 [] =
     get_gitlab_blame example_world (init (Some ''glpat'') (Some ''ghp''))
       ''https://gitlab.example.com/mirror/github/p'' ''src/a.py'' 10 []" by (rule conjunct1)
  with g a b c d show ?thesis by (simp only: simp_thms)
qed

text \<open>
  C10. When a range holds the line and no range before it does (at GitHub, the
  ranges before it having lines), the lookup returns the record whose author, commit
  and date are the author name, the commit identifier and the commit date of that
  range, whatever follows it in the sequence: later ranges that hold the line, or a
  later range without lines that would raise, are not read.
\<close>

theorem first_matching_range_wins:
  "(gitlab_client self = Some c \<and>
    gitlab_fetch w log c repo_url file_path = Inr (pre @ e # post) \<and>
    (\<forall>x\<in>set pre. \<not> (gl_lines_start x \<le> ln \<and> ln \<le> gl_lines_end x)) \<and>
    gl_lines_start e \<le> ln \<and> ln \<le> gl_lines_end e \<longrightarrow>
      fst (get_gitlab_blame w self repo_url file_path ln log) =
        Some \<lparr> author = gl_author_name e, commit = gl_id e, date = gl_committed_date e \<rparr>) \<and>
   (github_client self = Some c' \<and>
    github_fetch w log c' repo_url file_path = Inr (pre' @ g # post') \<and>
    (\<forall>x\<in>set pre'. gh_lines x \<noteq> [] \<and> \<not> (hd (gh_lines x) \<le> ln \<and> ln \<le> last (gh_lines x))) \<and>
    gh_lines g \<noteq> [] \<and> hd (gh_lines g) \<le> ln \<and> ln \<le> last (gh_lines g) \<longrightarrow>
      fst (get_github_blame w self repo_url file_path ln log) =
        Some \<lparr> author = gh_author_name g, commit = gh_sha g,
               date = gh_committed_date_isoformat g \<rparr>)"
  by (simp add: get_gitlab_blame_def gitlab_blame_body_def get_github_blame_def
      github_blame_body_def ebind_def gitlab_scan_first_match github_scan_first_match
      gitlab_BlameInfo_def github_BlameInfo_def)

text \<open>
  In the example world: of three ranges the second, Ann's, and the third, Bob's, hold
  the line 10, and the lookup returns Ann's record; at GitHub a fourth range, without
  lines, is not read.
\<close>

theorem first_matching_range_wins_witness:
  "gitlab_client (init (Some ''glpat'') (Some ''ghp'')) = Some (Gitlab ''glpat'') \<and>
   gitlab_fetch example_world [] (Gitlab ''glpat'') ''https://gitlab.example.com/g/p'' ''src/a.py'' =
     Inr ([cyd] @ ann # [bob]) \<and>
   \<not> (gl_lines_start cyd \<le> 10 \<and> 10 \<le> gl_lines_end cyd) \<and>
   gl_lines_start ann \<le> 10 \<and> 10 \<le> gl_lines_end ann \<and>
   gl_lines_start bob \<le> 10 \<and> 10 \<le> gl_lines_end bob \<and>
   fst (get_gitlab_blame example_world (init (Some ''glpat'') (Some ''ghp''))
          ''https://gitlab.example.com/g/p'' ''src/a.py'' 10 []) =
     Some \<lparr> author = ''Ann'', commit = ''abc123'', date = ''2024-01-01T00:00:00Z'' \<rparr> \<and>
   github_client (init (Some ''glpat'') (Some ''ghp'')) = Some (Github ''ghp'') \<and>
   github_fetch example_world [] (Github ''ghp'') ''https://gitlab.example.com/g/p'' ''src/a.py'' =
     Inr ([hub_cyd] @ hub_ann # [hub_bob, hub_no_lines]) \<and>
   gh_lines hub_cyd \<noteq> [] \<and>
   \<not> (hd (gh_lines hub_cyd) \<le> 10 \<and> 10 \<le> last (gh_lines hub_cyd)) \<and>
   gh_lines hub_ann \<noteq> [] \<and> hd (gh_lines hub_ann) \<le> 10 \<and> 10 \<le> last (gh_lines hub_ann) \<and>
   gh_lines hub_no_lines = [] \<and>
   fst (get_github_blame example_world (init (Some ''glpat'') (Some ''ghp''))
          ''https://gitlab.example.com/g/p'' ''src/a.py'' 10 []) =
     Some \<lparr> author = ''Ann'', commit = ''abc123'', date = ''2024-01-01T00:00:00'' \<rparr>"
proof -
  have c: "gitlab_client (init (Some ''glpat'') (Some ''ghp'')) = Some (Gitlab ''glpat'')"
    and c': "github_client (init (Some ''glpat'') (Some ''ghp'')) = Some (Github ''ghp'')"
    by (simp_all add: init_def)
  have f: "gitlab_fetch example_world [] (Gitlab ''glpat'') ''https://gitlab.example.com/g/p''
             ''src/a.py'' = Inr ([cyd] @ ann # [bob])"
    and f': "github_fetch example_world [] (Github ''ghp'') ''https://gitlab.example.com/g/p''
             ''src/a.py'' = Inr ([hub_cyd] @ hub_ann # [hub_bob, hub_no_lines])"
    by (simp_all add: example_world_def example_gitlab_fetch_def example_github_fetch_def)
  have r: "\<not> (gl_lines_start cyd \<le> 10 \<and> 10 \<le> gl_lines_end cyd)"
    "gl_lines_start ann \<le> 10" "10 \<le> gl_lines_end ann"
    "gl_lines_start bob \<le> 10" "10 \<le> gl_lines_end bob"
    "gh_lines hub_cyd \<noteq> []" "\<not> (hd (gh_lines hub_cyd) \<le> 10 \<and> 10 \<le> last (gh_lines hub_cyd))"
    "gh_lines hub_ann \<noteq> []" "hd (gh_lines hub_ann) \<le> 10" "10 \<le> last (gh_lines hub_ann)"
    "gh_lines hub_no_lines = []"
    by (simp_all add: ann_def bob_def cyd_def hub_ann_def hub_cyd_def hub_no_lines_def)
  have a: "gl_author_name ann = ''Ann''" "gl_id ann = ''abc123''"
    "gl_committed_date ann = ''2024-01-01T00:00:00Z''"
    "gh_author_name hub_ann = ''Ann''" "gh_sha hub_ann = ''abc123''"
    "gh_committed_date_isoformat hub_ann = ''2024-01-01T00:00:00''"
    by (simp_all add: ann_def hub_ann_def)
  from first_matching_range_wins[where self = "init (Some ''glpat'') (Some ''ghp'')"
      and c = "Gitlab ''glpat''" and c' = "Github ''ghp''" and w = example_world and log = "[]"
      and repo_url = "''https://gitlab.example.com/g/p''" and file_path = "''src/a.py''"
      and pre = "[cyd]" and e = ann and post = "[bob]" and ln = 10
      and pre' = "[hub_cyd]" and g = hub_ann and post' = "[hub_bob, hub_no_lines]"]
  show ?thesis using c c' f f' r a by simp
qed

end
